theory Spec2Isabelle
  imports Main
begin

section \<open>The browser a page handler acts on\<close>

text \<open>
  The handlers of the frontend do three things to the world around them: they call
  \<^verbatim>\<open>window.alert\<close>, they call the \<^verbatim>\<open>navigate\<close> function obtained from
  \<^verbatim>\<open>useNavigate()\<close>, and \<^verbatim>\<open>handleLogin\<close> calls \<^verbatim>\<open>preventDefault\<close> on the
  event it receives. The browser is a record that is passed in and returned updated:
  the alerts shown so far (oldest first), the entries pushed on the history stack, and
  the current location.
\<close>

record browser =
  alerts :: "string list"
  history :: "string list"
  location :: string

definition alert :: "string \<Rightarrow> browser \<Rightarrow> browser" where
  "alert message b = b\<lparr>alerts := alerts b @ [message]\<rparr>"

text \<open>
  \<^verbatim>\<open>navigate(to)\<close> pushes an entry and makes it the current location. Both call
  sites of the source pass an absolute path, which the router takes as it is.
\<close>

definition navigate :: "string \<Rightarrow> browser \<Rightarrow> browser" where
  "navigate to b = b\<lparr>history := history b @ [to], location := to\<rparr>"

section \<open>LoginPage.tsx\<close>

text \<open>
  The submit event of the login form. The form has the two fields \<^verbatim>\<open>brugernavn\<close>
  and \<^verbatim>\<open>adgangskode\<close>, neither of them required, so a submission carries any two
  strings, the empty ones included.
\<close>

record FormEvent =
  brugernavn :: string
  adgangskode :: string
  defaultPrevented :: bool

definition preventDefault :: "FormEvent \<Rightarrow> FormEvent" where
  "preventDefault event = event\<lparr>defaultPrevented := True\<rparr>"

text \<open>
  \<^verbatim>\<open>let loginSuccessful = false;\<close> is a variable of the component body, captured and
  assigned by the handler.
\<close>

record LoginPage =
  loginSuccessful :: bool

definition LoginPage_initial :: LoginPage where
  "LoginPage_initial = \<lparr>loginSuccessful = False\<rparr>"

text \<open>
  \<^verbatim>\<open>
  const handleLogin = (event: FormEvent) => {
      event.preventDefault();
      alert("Login form submitted");
      loginSuccessful = true;
      if (loginSuccessful) { navigate("/upload"); }
  }
  \<close>
\<close>

definition handleLogin ::
  "FormEvent \<Rightarrow> LoginPage \<Rightarrow> browser \<Rightarrow> FormEvent \<times> LoginPage \<times> browser" where
  "handleLogin event page b =
     (let event1 = preventDefault event;
          b1 = alert ''Login form submitted'' b;
          page1 = page\<lparr>loginSuccessful := True\<rparr>;
          b2 = (if loginSuccessful page1 then navigate ''/upload'' b1 else b1)
      in (event1, page1, b2))"

section \<open>UploadPage.tsx\<close>

text \<open>
  \<^verbatim>\<open>const [fileName, setFileName] = useState<string | null>(null);\<close>
\<close>

record UploadPage =
  fileName :: "string option"

definition UploadPage_initial :: UploadPage where
  "UploadPage_initial = \<lparr>fileName = None\<rparr>"

text \<open>
  The change event of the file input carries \<^verbatim>\<open>e.target.files\<close>, a list of files
  or null; a file is represented by its name.
  \<^verbatim>\<open>
  const f = e.target.files?.[0];
  setFileName(f ? f.name : null);
  \<close>
\<close>

fun onChange :: "string list option \<Rightarrow> UploadPage \<Rightarrow> UploadPage" where
  "onChange None page = page\<lparr>fileName := None\<rparr>"
| "onChange (Some []) page = page\<lparr>fileName := None\<rparr>"
| "onChange (Some (f # fs)) page = page\<lparr>fileName := Some f\<rparr>"

text \<open>JavaScript truthiness of a \<^verbatim>\<open>string | null\<close>: null and the empty string are falsy.\<close>

fun truthy :: "string option \<Rightarrow> bool" where
  "truthy None = False"
| "truthy (Some s) = (s \<noteq> [])"

text \<open>String concatenation with a \<^verbatim>\<open>string | null\<close> operand: null prints as "null".\<close>

fun toString :: "string option \<Rightarrow> string" where
  "toString None = ''null''"
| "toString (Some s) = s"

text \<open>
  \<^verbatim>\<open>
  function handleAnalyse() {
      alert("Analyse started for file: " + fileName);
      navigate("/1234");
  }
  \<close>
\<close>

definition handleAnalyse :: "UploadPage \<Rightarrow> browser \<Rightarrow> browser" where
  "handleAnalyse page b =
     navigate ''/1234'' (alert (''Analyse started for file: '' @ toString (fileName page)) b)"

text \<open>
  The class of the analyse button:
  \<^verbatim>\<open>className={!fileName ? "hidden" : "text-2xl mt-6 ..."}\<close>
\<close>

definition buttonClassName :: "UploadPage \<Rightarrow> string" where
  "buttonClassName page =
     (if \<not> truthy (fileName page) then ''hidden''
      else ''text-2xl mt-6 bg-gradient-to-r from-green-300 to-blue-500 rounded-md p-4 px-8 w-64 hover:from-green-400 hover:to-blue-600 hover:cursor-pointer transition-colors'')"

text \<open>The page after a sequence of change events of the file input, from its first render.\<close>

definition afterChanges :: "string list option list \<Rightarrow> UploadPage" where
  "afterChanges events = foldl (\<lambda>page files. onChange files page) UploadPage_initial events"

section \<open>App.tsx: the route table\<close>

datatype element = LoginPageElement | UploadPageElement

text \<open>
  \<^verbatim>\<open>
  <Routes>
      <Route index path="/" element={<LoginPage />} />
      <Route path="/upload" element={<UploadPage/>} />
  </Routes>
  \<close>
\<close>

definition routes :: "(string \<times> element) list" where
  "routes = [(''/'', LoginPageElement), (''/upload'', UploadPageElement)]"

text \<open>
  How the router matches a location against a route path without parameters: the path
  loses its trailing slashes and gets exactly one leading slash; the location matches
  when it is that path followed by any number of slashes, letters compared without
  regard to case.
\<close>

definition toLowerCase :: "char \<Rightarrow> char" where
  "toLowerCase c =
     (let n = (of_char c :: nat) in if 65 \<le> n \<and> n \<le> 90 then char_of (n + 32) else c)"

definition isSlash :: "char \<Rightarrow> bool" where
  "isSlash c = (c = CHR ''/'')"

definition normalizePath :: "string \<Rightarrow> string" where
  "normalizePath path = ''/'' @ dropWhile isSlash (rev (dropWhile isSlash (rev path)))"

definition matchPath :: "string \<Rightarrow> string \<Rightarrow> bool" where
  "matchPath path pathname =
     (let p = map toLowerCase (normalizePath path);
          l = map toLowerCase pathname
      in take (length p) l = p \<and> list_all isSlash (drop (length p) l))"

fun matchRoutes :: "(string \<times> element) list \<Rightarrow> string \<Rightarrow> element option" where
  "matchRoutes [] pathname = None"
| "matchRoutes ((path, el) # rs) pathname =
     (if matchPath path pathname then Some el else matchRoutes rs pathname)"

section \<open>Properties of the upload page and the route table\<close>

lemma afterChanges_snoc:
  "afterChanges (events @ [files]) = onChange files (afterChanges events)"
  by (simp add: afterChanges_def)

lemma buttonClassName_hidden_iff:
  "buttonClassName page = ''hidden'' \<longleftrightarrow> \<not> truthy (fileName page)"
  by (simp add: buttonClassName_def)

lemma truthy_Some: "truthy x \<longleftrightarrow> (\<exists>n. x = Some n \<and> n \<noteq> [])"
  by (cases x) simp_all

text \<open>
  The button is shown only when the last change event of the file input selected a file
  with a non-empty name; on the first render, and after a selection was cancelled, it is
  hidden.
\<close>

lemma afterChanges_visible:
  assumes "buttonClassName (afterChanges events) \<noteq> ''hidden''"
  shows "\<exists>es f fs. events = es @ [Some (f # fs)] \<and> f \<noteq> []
           \<and> fileName (afterChanges events) = Some f"
proof (cases events rule: rev_cases)
  case Nil
  with assms show ?thesis
    by (simp add: afterChanges_def UploadPage_initial_def buttonClassName_def)
next
  case (snoc es files)
  from assms have t: "truthy (fileName (onChange files (afterChanges es)))"
    unfolding snoc afterChanges_snoc buttonClassName_hidden_iff by simp
  show ?thesis
  proof (cases files)
    case None
    with t show ?thesis by simp
  next
    case (Some names)
    with t obtain f fs where names: "names = f # fs" and "f \<noteq> []"
      by (cases names) auto
    then show ?thesis
      unfolding snoc afterChanges_snoc Some by simp
  qed
qed

lemma location_handleAnalyse: "location (handleAnalyse page b) = ''/1234''"
  by (simp add: handleAnalyse_def navigate_def)

lemma no_route_1234: "matchRoutes routes ''/1234'' = None"
  by (simp add: routes_def matchPath_def normalizePath_def isSlash_def toLowerCase_def)

section \<open>The login handler\<close>

text \<open>
  Claim C9. The login handler accepts every submission: whatever the event carries in
  the username and password fields, and whatever the page and the browser were before,
  \<^verbatim>\<open>handleLogin\<close> prevents the default submit, leaves \<^verbatim>\<open>loginSuccessful\<close> true and
  leaves the browser at "/upload". The page and the browser it returns are the same for
  any two events, so nothing of the submission is read: no credentials are checked and
  no submission fails.
\<close>

theorem handleLogin_unconditional:
  "defaultPrevented (fst (handleLogin event page b))
   \<and> loginSuccessful (fst (snd (handleLogin event page b)))
   \<and> location (snd (snd (handleLogin event page b))) = ''/upload''
   \<and> snd (handleLogin event page b) = snd (handleLogin event2 page b)"
  by (simp add: handleLogin_def preventDefault_def navigate_def Let_def)

text \<open>
  The submission with both fields empty, on the first render of the login page at "/".
\<close>

theorem handleLogin_empty_credentials:
  "handleLogin \<lparr>brugernavn = [], adgangskode = [], defaultPrevented = False\<rparr> LoginPage_initial
     \<lparr>alerts = [], history = [''/''], location = ''/''\<rparr>
   = (\<lparr>brugernavn = [], adgangskode = [], defaultPrevented = True\<rparr>,
      \<lparr>loginSuccessful = True\<rparr>,
      \<lparr>alerts = [''Login form submitted''], history = [''/'', ''/upload''],
         location = ''/upload''\<rparr>)"
  using handleLogin_unconditional
    [of "\<lparr>brugernavn = [], adgangskode = [], defaultPrevented = False\<rparr>" LoginPage_initial
        "\<lparr>alerts = [], history = [''/''], location = ''/''\<rparr>"]
  by (simp add: handleLogin_def preventDefault_def navigate_def alert_def
        LoginPage_initial_def Let_def)

section \<open>The analyse button\<close>

text \<open>
  Claim C10. On the upload page the analyse button carries the class "hidden" while
  \<^verbatim>\<open>fileName\<close> is null; when it is shown, \<^verbatim>\<open>fileName\<close> is the non-empty name of a
  file, and after any sequence of change events of the file input that leaves it shown,
  the last event selected that file. Pressing the button always leaves the browser at
  "/1234". The route table registers the paths "/" and "/upload" only, and the location
  reached matches neither: every started analysis ends on an unmatched route.
\<close>

theorem handleAnalyse_unmatched_route:
  "buttonClassName (page\<lparr>fileName := None\<rparr>) = ''hidden''
   \<and> (buttonClassName page \<noteq> ''hidden'' \<longrightarrow> (\<exists>n. fileName page = Some n \<and> n \<noteq> []))
   \<and> (buttonClassName (afterChanges events) \<noteq> ''hidden'' \<longrightarrow>
        (\<exists>es f fs. events = es @ [Some (f # fs)] \<and> fileName (afterChanges events) = Some f))
   \<and> location (handleAnalyse page b) = ''/1234''
   \<and> map fst routes = [''/'', ''/upload'']
   \<and> matchRoutes routes (location (handleAnalyse page b)) = None"
proof -
  have 1: "buttonClassName (page\<lparr>fileName := None\<rparr>) = ''hidden''"
    by (simp add: buttonClassName_def)
  have 2: "buttonClassName page \<noteq> ''hidden'' \<longrightarrow> (\<exists>n. fileName page = Some n \<and> n \<noteq> [])"
    by (simp add: buttonClassName_hidden_iff truthy_Some)
  have 3: "buttonClassName (afterChanges events) \<noteq> ''hidden'' \<longrightarrow>
        (\<exists>es f fs. events = es @ [Some (f # fs)] \<and> fileName (afterChanges events) = Some f)"
    using afterChanges_visible [of events] by blast
  have 4: "map fst routes = [''/'', ''/upload'']"
    by (simp add: routes_def)
  show ?thesis
    using 1 2 3 4 by (simp only: location_handleAnalyse no_route_1234 simp_thms)
qed

text \<open>
  A file "kamp.mp4" is selected after a cancelled selection; the button is shown, and
  pressing it on the upload page leads from "/upload" to the unmatched "/1234".
\<close>

theorem handleAnalyse_unmatched_route_witness:
  "buttonClassName (afterChanges [None, Some [''kamp.mp4'']]) \<noteq> ''hidden''
   \<and> fileName (afterChanges [None, Some [''kamp.mp4'']]) = Some ''kamp.mp4''
   \<and> location (handleAnalyse (afterChanges [None, Some [''kamp.mp4'']])
        \<lparr>alerts = [], history = [''/'', ''/upload''], location = ''/upload''\<rparr>) = ''/1234''
   \<and> matchRoutes routes (location (handleAnalyse (afterChanges [None, Some [''kamp.mp4'']])
        \<lparr>alerts = [], history = [''/'', ''/upload''], location = ''/upload''\<rparr>)) = None"
proof -
  have visible: "buttonClassName (afterChanges [None, Some [''kamp.mp4'']]) \<noteq> ''hidden''"
    by (simp add: afterChanges_def UploadPage_initial_def buttonClassName_def)
  have selected: "fileName (afterChanges [None, Some [''kamp.mp4'']]) = Some ''kamp.mp4''"
    by (simp add: afterChanges_def UploadPage_initial_def)
  from visible selected handleAnalyse_unmatched_route
      [of "afterChanges [None, Some [''kamp.mp4'']]" "[None, Some [''kamp.mp4'']]"
          "\<lparr>alerts = [], history = [''/'', ''/upload''], location = ''/upload''\<rparr>"]
  show ?thesis by blast
qed

end
